theory Spec2Isabelle
  imports Complex_Main "HOL-Library.AList" "HOL-Library.Char_ord"
begin

section \<open>Python values and exceptions\<close>

text \<open>
  The values that reach the model: configuration rows are converted with \<open>int\<close>,
  \<open>float\<close> and \<open>str\<close>, and constructor defaults are \<open>None\<close> and \<open>0\<close>. Floats are
  idealised as reals (exact arithmetic).
\<close>

datatype pyval = PyNone | PyInt int | PyFloat real | PyStr string

text \<open>Every exception the modelled code raises is a value; the argument is the message or
  the offending name.\<close>

datatype error =
    KeyError string
  | ValueError string
  | NameError string
  | AttributeError string
  | TypeError string
  | IndexError string
  | ZeroDivisionError
  | Exception string

definition bind_err :: "error + 'a \<Rightarrow> ('a \<Rightarrow> error + 'b) \<Rightarrow> error + 'b" where
  "bind_err m f = (case m of Inl e \<Rightarrow> Inl e | Inr x \<Rightarrow> f x)"

text \<open>Reading a name that is bound neither locally nor in the module raises \<open>NameError\<close>.\<close>

definition unbound_name :: "string \<Rightarrow> error + 'a" where
  "unbound_name n = Inl (NameError n)"

text \<open>A number used in float arithmetic or compared with a float; \<open>None\<close> and strings
  raise \<open>TypeError\<close>.\<close>

fun num :: "pyval \<Rightarrow> error + real" where
  "num (PyInt i) = Inr (of_int i)"
| "num (PyFloat x) = Inr x"
| "num PyNone = Inl (TypeError ''NoneType'')"
| "num (PyStr s) = Inl (TypeError ''str'')"

section \<open>technology.py: the Technology class\<close>

text \<open>
  The eleven attributes \<open>__init__\<close> binds, in its order. \<open>attrs\<close> holds every other
  attribute of the instance: Python lets a caller bind one by plain assignment
  (\<open>tech.start_year = 2020\<close>), and neither \<open>__init__\<close> nor \<open>__setitem__\<close> does.
\<close>

record Technology =
  name :: pyval
  carbon_intensity :: pyval
  energy_content :: pyval
  tech_life :: pyval
  fuel_cost :: pyval
  inv_cost :: pyval
  infra_cost :: pyval
  om_cost :: pyval
  time_of_cooking :: pyval
  efficiency :: pyval
  pm25 :: pyval
  attrs :: "string \<rightharpoonup> pyval"

definition Technology_init :: Technology where
  "Technology_init =
     \<lparr> name = PyNone, carbon_intensity = PyInt 0, energy_content = PyInt 0,
       tech_life = PyInt 0, fuel_cost = PyInt 0, inv_cost = PyInt 0, infra_cost = PyInt 0,
       om_cost = PyInt 0, time_of_cooking = PyInt 0, efficiency = PyInt 0, pm25 = PyInt 0,
       attrs = Map.empty \<rparr>"

text \<open>\<open>Technology.__setitem__\<close>: the chain of comparisons in the source's order.\<close>

definition setitem :: "Technology \<Rightarrow> string \<Rightarrow> pyval \<Rightarrow> error + Technology" where
  "setitem self idx v =
     (if idx = ''name'' then Inr (self\<lparr>name := v\<rparr>)
      else if idx = ''energy_content'' then Inr (self\<lparr>energy_content := v\<rparr>)
      else if idx = ''carbon_intensity'' then Inr (self\<lparr>carbon_intensity := v\<rparr>)
      else if idx = ''fuel_cost'' then Inr (self\<lparr>fuel_cost := v\<rparr>)
      else if idx = ''tech_life'' then Inr (self\<lparr>tech_life := v\<rparr>)
      else if idx = ''inv_cost'' then Inr (self\<lparr>inv_cost := v\<rparr>)
      else if idx = ''infra_cost'' then Inr (self\<lparr>infra_cost := v\<rparr>)
      else if idx = ''om_cost'' then Inr (self\<lparr>om_cost := v\<rparr>)
      else if idx = ''time_of_cooking'' then Inr (self\<lparr>time_of_cooking := v\<rparr>)
      else if idx = ''efficiency'' then Inr (self\<lparr>efficiency := v\<rparr>)
      else if idx = ''pm25'' then Inr (self\<lparr>pm25 := v\<rparr>)
      else Inl (KeyError idx))"

text \<open>Attribute access \<open>tech.a\<close> for a name outside the eleven of \<open>__init__\<close>.\<close>

definition getattr_extra :: "Technology \<Rightarrow> string \<Rightarrow> error + pyval" where
  "getattr_extra tech a =
     (case attrs tech a of None \<Rightarrow> Inl (AttributeError a) | Some v \<Rightarrow> Inr v)"

definition setitem_keys :: "string list" where
  "setitem_keys =
     [''name'', ''energy_content'', ''carbon_intensity'', ''fuel_cost'', ''tech_life'',
      ''inv_cost'', ''infra_cost'', ''om_cost'', ''time_of_cooking'', ''efficiency'',
      ''pm25'']"

section \<open>technology.py: relative risk\<close>

text \<open>
  The four dose-response curves of \<open>Technology.relative_risk\<close> (lines 68 to 86). Below
  its threshold a curve is the literal \<open>1\<close>; from the threshold on the base of \<open>**\<close> is
  not negative, where Python's float power and \<open>powr\<close> agree (\<open>0.0 ** y = 0.0\<close> for
  positive \<open>y\<close>).
\<close>

definition rr_alri :: "real \<Rightarrow> real" where
  "rr_alri p =
     (if p < 7.298 then 1 else 1 + 2.383 * (1 - exp ((- 0.004) * ((p - 7.298) powr 1.193))))"

definition rr_copd :: "real \<Rightarrow> real" where
  "rr_copd p =
     (if p < 7.337 then 1 else 1 + 22.485 * (1 - exp ((- 0.001) * ((p - 7.337) powr 0.694))))"

definition rr_ihd :: "real \<Rightarrow> real" where
  "rr_ihd p =
     (if p < 7.505 then 1 else 1 + 2.538 * (1 - exp ((- 0.081) * ((p - 7.505) powr 0.466))))"

definition rr_lc :: "real \<Rightarrow> real" where
  "rr_lc p =
     (if p < 7.345 then 1
      else 1 + 152.496 * (1 - exp ((- 0.000167) * ((p - 7.345) powr 0.76))))"

definition relative_risk :: "Technology \<Rightarrow> error + real \<times> real \<times> real \<times> real" where
  "relative_risk self =
     bind_err (num (pm25 self)) (\<lambda>p. Inr (rr_alri p, rr_copd p, rr_ihd p, rr_lc p))"

section \<open>technology.py: morbidity and mortality\<close>

text \<open>Python's \<open>/\<close> and \<open>**\<close> on numbers raise \<open>ZeroDivisionError\<close> where HOL returns 0.\<close>

definition py_truediv :: "real \<Rightarrow> real \<Rightarrow> error + real" where
  "py_truediv a b = (if b = 0 then Inl ZeroDivisionError else Inr (a / b))"

definition py_pow :: "real \<Rightarrow> int \<Rightarrow> error + real" where
  "py_pow b n = (if b = 0 \<and> n < 0 then Inl ZeroDivisionError else Inr (b powi n))"

text \<open>\<open>(sfu * (rr - 1)) / (sfu * (rr - 1) + 1)\<close>, lines 139 to 142 and 236 to 239.\<close>

definition paf :: "real \<Rightarrow> real \<Rightarrow> error + real" where
  "paf sfu rr = py_truediv (sfu * (rr - 1)) (sfu * (rr - 1) + 1)"

text \<open>
  Lines 119 to 152 of \<open>morbidity\<close> and 216 to 249 of \<open>mortality\<close> are the same text up to the
  names of the four rates: the relative risks of lines 68 to 86 written out again, the
  attributable fractions, and household size times fraction times rate for urban and for
  rural households. The result is (alri, copd, ihd, lc) for urban, then for rural.
\<close>

definition attributable_cases ::
  "Technology \<Rightarrow> real \<Rightarrow> real \<Rightarrow> real \<Rightarrow> real \<Rightarrow> real \<Rightarrow> real \<Rightarrow> real
   \<Rightarrow> error + (real \<times> real \<times> real \<times> real) \<times> (real \<times> real \<times> real \<times> real)" where
  "attributable_cases tech sfu hhsize_R hhsize_U rate_alri rate_copd rate_ihd rate_lc =
     bind_err (num (pm25 tech)) (\<lambda>p.
     bind_err (paf sfu (rr_alri p)) (\<lambda>paf_alri.
     bind_err (paf sfu (rr_copd p)) (\<lambda>paf_copd.
     bind_err (paf sfu (rr_ihd p)) (\<lambda>paf_ihd.
     bind_err (paf sfu (rr_lc p)) (\<lambda>paf_lc.
       Inr ((hhsize_U * paf_alri * rate_alri, hhsize_U * paf_copd * rate_copd,
             hhsize_U * paf_ihd * rate_ihd, hhsize_U * paf_lc * rate_lc),
            (hhsize_R * paf_alri * rate_alri, hhsize_R * paf_copd * rate_copd,
             hhsize_R * paf_ihd * rate_ihd, hhsize_R * paf_lc * rate_lc)))))))"

text \<open>The cohort weights, dictionaries keyed 1 to 5.\<close>

definition cl_copd :: "int \<rightharpoonup> real" where
  "cl_copd = map_of [(1, 0.3), (2, 0.2), (3, 0.17), (4, 0.17), (5, 0.16)]"

definition cl_alri :: "int \<rightharpoonup> real" where
  "cl_alri = map_of [(1, 0.7), (2, 0.1), (3, 0.07), (4, 0.07), (5, 0.06)]"

definition cl_lc :: "int \<rightharpoonup> real" where
  "cl_lc = map_of [(1, 0.2), (2, 0.1), (3, 0.24), (4, 0.23), (5, 0.23)]"

definition cl_ihd :: "int \<rightharpoonup> real" where
  "cl_ihd = map_of [(1, 0.2), (2, 0.1), (3, 0.24), (4, 0.23), (5, 0.23)]"

text \<open>\<open>cl[i] * value * cases / (1 + discount_rate_social) ** (end_year - start_year)\<close>.\<close>

definition cohort_term ::
  "(int \<rightharpoonup> real) \<Rightarrow> int \<Rightarrow> real \<Rightarrow> real \<Rightarrow> real \<Rightarrow> int \<Rightarrow> int \<Rightarrow> error + real" where
  "cohort_term cl i val cases discount_rate_social start_year end_year =
     (case cl i of
        None \<Rightarrow> Inl (KeyError ''i'')
      | Some w \<Rightarrow>
          bind_err (py_pow (1 + discount_rate_social) (end_year - start_year))
            (py_truediv (w * val * cases)))"

text \<open>
  One pass through the body of the \<open>while\<close> loop for cohort \<open>i\<close>: the urban total, then the
  rural total, each the sum of the alri, copd, lc and ihd terms. \<open>val\<close> gives the money
  value per endpoint in that order.
\<close>

definition cohort_totals ::
  "real \<times> real \<times> real \<times> real \<Rightarrow> (real \<times> real \<times> real \<times> real) \<times> (real \<times> real \<times> real \<times> real)
   \<Rightarrow> real \<Rightarrow> int \<Rightarrow> int \<Rightarrow> int \<Rightarrow> error + real \<times> real" where
  "cohort_totals val cases d start_year end_year i =
     (case (val, cases) of
        ((v_alri, v_copd, v_lc, v_ihd), (alri_U, copd_U, ihd_U, lc_U), (alri_R, copd_R, ihd_R, lc_R)) \<Rightarrow>
     bind_err (cohort_term cl_alri i v_alri alri_U d start_year end_year) (\<lambda>a_U.
     bind_err (cohort_term cl_copd i v_copd copd_U d start_year end_year) (\<lambda>c_U.
     bind_err (cohort_term cl_lc i v_lc lc_U d start_year end_year) (\<lambda>l_U.
     bind_err (cohort_term cl_ihd i v_ihd ihd_U d start_year end_year) (\<lambda>i_U.
     bind_err (cohort_term cl_alri i v_alri alri_R d start_year end_year) (\<lambda>a_R.
     bind_err (cohort_term cl_copd i v_copd copd_R d start_year end_year) (\<lambda>c_R.
     bind_err (cohort_term cl_lc i v_lc lc_R d start_year end_year) (\<lambda>l_R.
     bind_err (cohort_term cl_ihd i v_ihd ihd_R d start_year end_year) (\<lambda>i_R.
       Inr (a_U + c_U + l_U + i_U, a_R + c_R + l_R + i_R))))))))))"

text \<open>
  The loop of lines 159 to 179 and of lines 256 to 276: \<open>while i < 6\<close> with a body that
  appends one total to each vector and assigns nothing to \<open>i\<close>. A loop that does not return
  has the value \<open>None\<close>.
\<close>

partial_function (option) cohort_loop ::
  "(int \<Rightarrow> error + real \<times> real) \<Rightarrow> int \<Rightarrow> real list \<Rightarrow> real list
   \<Rightarrow> (error + real list \<times> real list) option" where
  "cohort_loop body i U_vector R_vector =
     (if i < 6 then
        (case body i of
           Inl e \<Rightarrow> Some (Inl e)
         | Inr tot \<Rightarrow> cohort_loop body i (U_vector @ [fst tot]) (R_vector @ [snd tot]))
      else Some (Inr (U_vector, R_vector)))"

definition sum_vectors ::
  "(error + real list \<times> real list) option \<Rightarrow> (error + real \<times> real) option" where
  "sum_vectors r =
     (case r of
        None \<Rightarrow> None
      | Some (Inl e) \<Rightarrow> Some (Inl e)
      | Some (Inr (U_vector, R_vector)) \<Rightarrow> Some (Inr (sum_list R_vector, sum_list U_vector)))"

definition morbidity ::
  "int \<Rightarrow> int \<Rightarrow> Technology \<Rightarrow> real \<Rightarrow> real \<Rightarrow> real \<Rightarrow> real \<Rightarrow> real \<Rightarrow> real \<Rightarrow> real
   \<Rightarrow> real \<Rightarrow> real \<Rightarrow> real \<Rightarrow> real \<Rightarrow> real \<Rightarrow> (error + real \<times> real) option" where
  "morbidity start_year end_year tech discount_rate_social hhsize_R hhsize_U coi_alri coi_lc
     coi_copd coi_ihd inci_alri inci_lc inci_copd inci_ihd sfu =
     (case attributable_cases tech sfu hhsize_R hhsize_U inci_alri inci_copd inci_ihd inci_lc of
        Inl e \<Rightarrow> Some (Inl e)
      | Inr morb \<Rightarrow>
          sum_vectors
            (cohort_loop
               (cohort_totals (coi_alri, coi_copd, coi_lc, coi_ihd) morb discount_rate_social
                  start_year end_year)
               1 [] []))"

definition mortality ::
  "int \<Rightarrow> int \<Rightarrow> Technology \<Rightarrow> real \<Rightarrow> real \<Rightarrow> real \<Rightarrow> real \<Rightarrow> real \<Rightarrow> real \<Rightarrow> real
   \<Rightarrow> real \<Rightarrow> real \<Rightarrow> (error + real \<times> real) option" where
  "mortality start_year end_year tech discount_rate_social hhsize_R hhsize_U vsl mort_ihd
     mort_lc mort_alri mort_copd sfu =
     (case attributable_cases tech sfu hhsize_R hhsize_U mort_alri mort_copd mort_ihd mort_lc of
        Inl e \<Rightarrow> Some (Inl e)
      | Inr mort \<Rightarrow>
          sum_vectors
            (cohort_loop
               (cohort_totals (vsl, vsl, vsl, vsl) mort discount_rate_social start_year end_year)
               1 [] []))"

section \<open>technology.py: discounted series\<close>

text \<open>
  Python's \<open>==\<close>, \<open>-\<close> and \<open>>\<close> on the values above. \<open>py_gt\<close> is only called with a
  number on the left, where a string or \<open>None\<close> on the right raises \<open>TypeError\<close>.
\<close>

fun py_eq :: "pyval \<Rightarrow> pyval \<Rightarrow> bool" where
  "py_eq (PyInt a) (PyInt b) = (a = b)"
| "py_eq (PyInt a) (PyFloat b) = (of_int a = b)"
| "py_eq (PyFloat a) (PyInt b) = (a = of_int b)"
| "py_eq (PyFloat a) (PyFloat b) = (a = b)"
| "py_eq (PyStr a) (PyStr b) = (a = b)"
| "py_eq PyNone PyNone = True"
| "py_eq _ _ = False"

fun py_sub :: "pyval \<Rightarrow> pyval \<Rightarrow> error + pyval" where
  "py_sub (PyInt a) (PyInt b) = Inr (PyInt (a - b))"
| "py_sub (PyInt a) (PyFloat b) = Inr (PyFloat (of_int a - b))"
| "py_sub (PyFloat a) (PyInt b) = Inr (PyFloat (a - of_int b))"
| "py_sub (PyFloat a) (PyFloat b) = Inr (PyFloat (a - b))"
| "py_sub _ _ = Inl (TypeError ''unsupported operand type(s) for -'')"

definition py_gt :: "pyval \<Rightarrow> pyval \<Rightarrow> error + bool" where
  "py_gt a b = bind_err (num a) (\<lambda>x. bind_err (num b) (\<lambda>y. Inr (y < x)))"

text \<open>
  numpy arrays of floats are lists of reals. \<open>np.arange(n)\<close> counts from 0 and is empty
  for \<open>n \<le> 0\<close>; \<open>np.zeros\<close> and \<open>np.ones\<close> want an integer that is not negative.
\<close>

fun np_arange :: "pyval \<Rightarrow> error + nat list" where
  "np_arange (PyInt n) = Inr [0..<nat n]"
| "np_arange (PyFloat x) = Inr [0..<nat \<lceil>x\<rceil>]"
| "np_arange _ = Inl (TypeError ''arange'')"

fun np_full :: "real \<Rightarrow> pyval \<Rightarrow> error + real list" where
  "np_full v (PyInt n) =
     (if n < 0 then Inl (ValueError ''negative dimensions are not allowed'')
      else Inr (replicate (nat n) v))"
| "np_full v _ = Inl (TypeError ''object cannot be interpreted as an integer'')"

definition np_zeros :: "pyval \<Rightarrow> error + real list" where
  "np_zeros = np_full 0"

definition np_ones :: "pyval \<Rightarrow> error + real list" where
  "np_ones = np_full 1"

text \<open>\<open>a[k] = v\<close>: an integer index, negative ones counting from the end.\<close>

fun arr_set :: "real list \<Rightarrow> pyval \<Rightarrow> real \<Rightarrow> error + real list" where
  "arr_set xs (PyInt k) v =
     (if 0 \<le> k \<and> k < int (length xs) then Inr (xs[nat k := v])
      else if - int (length xs) \<le> k \<and> k < 0 then Inr (xs[nat (int (length xs) + k) := v])
      else Inl (IndexError ''index is out of bounds''))"
| "arr_set xs _ v = Inl (IndexError ''only integers are valid indices'')"

text \<open>
  Element-wise arithmetic of two arrays, an array of one element stretching to the other's
  length. A zero divisor gives numpy's \<open>inf\<close> or \<open>nan\<close> with a warning, which the reals do not
  have: the model is faithful where no element of the divisor is 0.
\<close>

definition arr_op :: "(real \<Rightarrow> real \<Rightarrow> real) \<Rightarrow> real list \<Rightarrow> real list \<Rightarrow> error + real list" where
  "arr_op f xs ys =
     (if length xs = length ys then Inr (map2 f xs ys)
      else if length xs = 1 then Inr (map (f (hd xs)) ys)
      else if length ys = 1 then Inr (map (\<lambda>x. f x (hd ys)) xs)
      else Inl (ValueError ''operands could not be broadcast together''))"

text \<open>
  \<open>discount_factor\<close> reads \<open>tech.start_year\<close> and \<open>tech.end_year\<close>, which are not among
  the attributes of \<open>__init__\<close>.
\<close>

definition discount_factor :: "real \<Rightarrow> Technology \<Rightarrow> error + real list \<times> pyval" where
  "discount_factor discount_rate_tech tech =
     bind_err (getattr_extra tech ''start_year'') (\<lambda>start_year.
     bind_err (getattr_extra tech ''end_year'') (\<lambda>end_year.
     bind_err (if py_eq start_year end_year then Inr (PyInt 1) else py_sub end_year start_year)
       (\<lambda>proj_life.
     bind_err (np_arange proj_life) (\<lambda>year.
       Inr (map (\<lambda>y. (1 + discount_rate_tech) ^ y) year, proj_life)))))"

definition discounted_meals :: "real \<Rightarrow> real \<Rightarrow> Technology \<Rightarrow> error + real list" where
  "discounted_meals meals_per_year discount_rate_tech tech =
     bind_err (discount_factor discount_rate_tech tech) (\<lambda>(discount_rate, proj_life).
     bind_err (num (efficiency tech)) (\<lambda>eff.
     bind_err (py_truediv (meals_per_year * 3.64) eff) (\<lambda>energy.
     bind_err (np_ones proj_life) (\<lambda>ones.
     bind_err (py_gt proj_life (PyInt 1)) (\<lambda>more_than_one.
     bind_err (if more_than_one then arr_set (map ((*) energy) ones) (PyInt 0) 0
               else Inr (map ((*) energy) ones)) (\<lambda>energy_needed.
       arr_op (/) energy_needed discount_rate))))))"

text \<open>
  The next three functions bind \<open>proj_life\<close> and then read \<open>project_life\<close>, a name bound
  neither in the function nor in the module.
\<close>

definition discounted_inv :: "real \<Rightarrow> Technology \<Rightarrow> error + real list" where
  "discounted_inv discount_rate_tech tech =
     bind_err (discount_factor discount_rate_tech tech) (\<lambda>(discount_rate, proj_life).
     bind_err (unbound_name ''project_life'') (\<lambda>project_life.
     bind_err (np_zeros project_life) (\<lambda>investments.
     bind_err (num (inv_cost tech)) (\<lambda>inv.
     bind_err (arr_set investments (PyInt 0) inv) (\<lambda>investments.
     bind_err (py_gt proj_life (tech_life tech)) (\<lambda>replaced.
     bind_err (if replaced then arr_set investments (tech_life tech) inv
               else Inr investments) (\<lambda>investments.
       arr_op (/) investments discount_rate)))))))"

definition discounted_om :: "real \<Rightarrow> Technology \<Rightarrow> error + real list" where
  "discounted_om discount_rate_tech tech =
     bind_err (discount_factor discount_rate_tech tech) (\<lambda>(discount_rate, proj_life).
     bind_err (getattr_extra tech ''om_costs'') (\<lambda>om_costs.
     bind_err (unbound_name ''project_life'') (\<lambda>project_life.
     bind_err (np_ones project_life) (\<lambda>ones.
     bind_err (num om_costs) (\<lambda>om.
     bind_err (py_gt proj_life (PyInt 1)) (\<lambda>more_than_one.
     bind_err (if more_than_one then
                 bind_err (arr_set (map ((*) om) ones) (PyInt 0) 0) (\<lambda>operation_and_maintenance.
                 bind_err (py_gt proj_life (tech_life tech)) (\<lambda>replaced.
                   if replaced then arr_set operation_and_maintenance (tech_life tech) 0
                   else Inr operation_and_maintenance))
               else Inr (map ((*) om) ones)) (\<lambda>operation_and_maintenance.
       arr_op (/) operation_and_maintenance discount_rate)))))))"

definition salvage :: "real \<Rightarrow> Technology \<Rightarrow> error + real list" where
  "salvage discount_rate_tech tech =
     bind_err (discount_factor discount_rate_tech tech) (\<lambda>(discount_rate, proj_life).
     bind_err (unbound_name ''project_life'') (\<lambda>project_life.
     bind_err (np_zeros project_life) (\<lambda>salvage.
     bind_err (py_gt proj_life (tech_life tech)) (\<lambda>replaced.
     bind_err (if replaced then py_sub project_life (tech_life tech) else Inr project_life)
       (\<lambda>used_life.
     bind_err (num used_life) (\<lambda>used.
     bind_err (num (tech_life tech)) (\<lambda>life.
     bind_err (py_truediv used life) (\<lambda>used_share.
     bind_err (num (inv_cost tech)) (\<lambda>inv.
     bind_err (arr_set salvage (PyInt (- 1)) (inv * (1 - used_share))) (\<lambda>salvage.
       arr_op (/) salvage discount_rate))))))))))"

section \<open>technology.py: cost, benefit and net cost\<close>

text \<open>
  A call that passes fewer positional arguments than the function has parameters without
  a default raises \<open>TypeError\<close> before the body runs. \<open>cost\<close> calls
  \<open>discounted_fuel_cost\<close> (five parameters) with four arguments; \<open>benefit\<close> calls
  \<open>morbidity\<close> (fourteen parameters without default) with seven and \<open>mortality\<close> (eleven
  without default) with eight.
\<close>

definition missing_arguments :: "string \<Rightarrow> error + 'a" where
  "missing_arguments f = Inl (TypeError (f @ ''() missing required positional arguments''))"

definition cost :: "real \<Rightarrow> Technology \<Rightarrow> real \<Rightarrow> 'r \<Rightarrow> 'r \<Rightarrow> error + real list" where
  "cost discount_rate_tech tech meals_per_year road_friction lpg =
     bind_err (discounted_inv discount_rate_tech tech) (\<lambda>inv.
     bind_err (discounted_om discount_rate_tech tech) (\<lambda>om.
     bind_err (arr_op (+) inv om) (\<lambda>inv_om.
     bind_err (missing_arguments ''discounted_fuel_cost'') (\<lambda>fuel.
     bind_err (arr_op (+) inv_om fuel) (\<lambda>inv_om_fuel.
     bind_err (salvage discount_rate_tech tech) (\<lambda>salv.
     bind_err (arr_op (-) inv_om_fuel salv) (\<lambda>total.
     bind_err (discounted_meals meals_per_year discount_rate_tech tech) (\<lambda>meals.
       arr_op (/) total meals))))))))"

text \<open>
  \<open>time_save\<close> calls \<open>raster.travel_time\<close>, of a module that is not part of the modelled
  files: its result for \<open>(walking_friction, forest)\<close> is the parameter \<open>travel_time\<close>.
\<close>

definition time_save :: "Technology \<Rightarrow> real \<Rightarrow> error + real \<Rightarrow> error + real" where
  "time_save tech value_of_time travel_time =
     bind_err (if py_eq (name tech) (PyStr ''biogas'') then Inr 2
               else if py_eq (name tech) (PyStr ''traditional_biomass'')
                       \<or> py_eq (name tech) (PyStr ''improved_biomass'')
                    then bind_err travel_time (\<lambda>t. Inr (2 * t + 2.2))
               else Inr 0) (\<lambda>time_of_collection.
     bind_err (num (time_of_cooking tech)) (\<lambda>cooking.
       Inr ((time_of_collection + cooking) * value_of_time)))"

definition carbon_emissions :: "Technology \<Rightarrow> error + real" where
  "carbon_emissions tech =
     bind_err (num (efficiency tech)) (\<lambda>eff.
     bind_err (py_truediv 3.64 eff) (\<lambda>q.
     bind_err (num (energy_content tech)) (\<lambda>ec.
     bind_err (py_truediv (5 * q) ec) (\<lambda>lhs.
     bind_err (num (carbon_intensity tech)) (\<lambda>ci.
     bind_err (py_truediv (ci * ec) eff) (\<lambda>rhs.
       Inr (lhs * rhs)))))))"

text \<open>
  In \<open>benefit\<close> the two calls that cannot bind their parameters come first; what follows
  them is never run and is kept in the source's shape, with their results taken as
  numbers.
\<close>

definition benefit :: "Technology \<Rightarrow> real \<Rightarrow> error + real \<Rightarrow> error + real" where
  "benefit tech value_of_time travel_time =
     bind_err (missing_arguments ''morbidity'') (\<lambda>morb.
     bind_err (missing_arguments ''mortality'') (\<lambda>mort.
     bind_err (time_save tech value_of_time travel_time) (\<lambda>time_value.
     bind_err (carbon_emissions tech) (\<lambda>carb.
       Inr (morb + mort + time_value + carb)))))"

definition net_costs ::
  "real \<Rightarrow> Technology \<Rightarrow> real \<Rightarrow> 'r \<Rightarrow> 'r \<Rightarrow> real \<Rightarrow> error + real \<Rightarrow> error + real list" where
  "net_costs discount_rate_tech tech meals_per_year road_friction lpg value_of_time travel_time =
     bind_err (cost discount_rate_tech tech meals_per_year road_friction lpg) (\<lambda>c.
     bind_err (benefit tech value_of_time travel_time) (\<lambda>b.
       Inr (map (\<lambda>x. x - b) c)))"

text \<open>
  The technology of the specification's end-to-end scenario: \<open>pm25 = 0\<close>,
  \<open>efficiency = 1\<close>, \<open>tech_life = 10\<close>, \<open>inv_cost = 100\<close>, \<open>om_cost = 0.1\<close>, with
  \<open>start_year = 2020\<close> and \<open>end_year = 2030\<close> bound by plain assignment.
\<close>

definition scenario_tech :: Technology where
  "scenario_tech =
     Technology_init\<lparr> pm25 := PyInt 0, efficiency := PyInt 1, tech_life := PyInt 10,
       inv_cost := PyInt 100, om_cost := PyFloat 0.1,
       attrs := [''start_year'' \<mapsto> PyInt 2020, ''end_year'' \<mapsto> PyInt 2030] \<rparr>"

section \<open>onsstove.py: the OnSSTOVE class\<close>

text \<open>
  A layer is a \<open>VectorLayer\<close> or a \<open>RasterLayer\<close> with its category, its name and its
  \<open>friction\<close> attribute (\<open>None\<close> or another layer). The classes themselves live in
  \<open>layer.py\<close>, outside the modelled files: a call of \<open>layer.mask\<close> is recorded as an event.
\<close>

datatype layer =
    VectorLayer string string "layer option"
  | RasterLayer string string "layer option"

fun friction :: "layer \<Rightarrow> layer option" where
  "friction (VectorLayer c n f) = f"
| "friction (RasterLayer c n f) = f"

fun is_RasterLayer :: "layer option \<Rightarrow> bool" where
  "is_RasterLayer (Some (RasterLayer c n f)) = True"
| "is_RasterLayer _ = False"

datatype geodataframe = GeoDataFrame string

datatype event = Makedirs string | Mask layer geodataframe string

text \<open>The point table \<open>self.gdf\<close>: its number of rows and its numeric columns by name.\<close>

record frame =
  nrows :: nat
  columns :: "string \<rightharpoonup> real list"

text \<open>\<open>cell_size\<close> is a number given to the constructor or the pair \<open>add_layer\<close> builds.\<close>

datatype cellsize = CellSize real | CellTuple real real

text \<open>Python dictionaries keep insertion order: the layer registry is an association list
  with distinct keys.\<close>

record OnSSTOVE =
  layers :: "(string \<times> (string \<times> layer) list) list"
  cell_size :: "cellsize option"
  output_directory :: string
  mask_layer :: "geodataframe option"
  specs :: "(string \<rightharpoonup> pyval) option"
  techs :: "(string \<rightharpoonup> Technology) option"
  gdf :: "frame option"

definition OnSSTOVE_init :: "cellsize option \<Rightarrow> string \<Rightarrow> OnSSTOVE" where
  "OnSSTOVE_init cs out =
     \<lparr> layers = [], cell_size = cs, output_directory = out, mask_layer = None,
       specs = None, techs = None, gdf = None \<rparr>"

subsection \<open>get_layers and mask_layers\<close>

datatype selection = All | Names "(string \<times> string list) list"

text \<open>
  The dictionary comprehension of \<open>get_layers\<close> visits the pairs (category, name) in order
  and stores \<open>{name: self.layers[category][name]}\<close> under the key \<open>category\<close>: storing under
  a key that is present replaces its value.
\<close>

definition get_layer :: "OnSSTOVE \<Rightarrow> string \<Rightarrow> string \<Rightarrow> error + layer" where
  "get_layer self category nm =
     (case map_of (layers self) category of
        None \<Rightarrow> Inl (KeyError category)
      | Some d \<Rightarrow> (case map_of d nm of None \<Rightarrow> Inl (KeyError nm) | Some l \<Rightarrow> Inr l))"

fun comprehension ::
  "OnSSTOVE \<Rightarrow> (string \<times> string) list \<Rightarrow> (string \<times> (string \<times> layer) list) list
   \<Rightarrow> error + (string \<times> (string \<times> layer) list) list" where
  "comprehension self [] acc = Inr acc"
| "comprehension self ((category, nm) # rest) acc =
     bind_err (get_layer self category nm) (\<lambda>l.
       comprehension self rest (AList.update category [(nm, l)] acc))"

definition get_layers ::
  "OnSSTOVE \<Rightarrow> selection \<Rightarrow> error + (string \<times> (string \<times> layer) list) list" where
  "get_layers self sel =
     (case sel of
        All \<Rightarrow> Inr (layers self)
      | Names d \<Rightarrow>
          comprehension self (concat (map (\<lambda>(category, names). map (Pair category) names) d)) [])"

definition path_join :: "string \<Rightarrow> string \<Rightarrow> string \<Rightarrow> string" where
  "path_join a b c = a @ ''/'' @ b @ ''/'' @ c"

definition mask_one :: "OnSSTOVE \<Rightarrow> geodataframe \<Rightarrow> string \<Rightarrow> string \<times> layer \<Rightarrow> event list" where
  "mask_one self m category nl =
     (let output_path = path_join (output_directory self) category (fst nl)
      in [Makedirs output_path, Mask (snd nl) m output_path]
         @ (if is_RasterLayer (friction (snd nl)) then [Mask (the (friction (snd nl))) m output_path]
            else []))"

definition mask_layers :: "OnSSTOVE \<Rightarrow> selection \<Rightarrow> error + event list" where
  "mask_layers self datasets =
     (case mask_layer self of
        None \<Rightarrow> Inl (Exception ''The mask_layer attribute is empty, please first add a mask layer using the .add_mask_layer method.'')
      | Some m \<Rightarrow>
          bind_err (get_layers self datasets) (\<lambda>ds.
            Inr (concat (map (\<lambda>(category, ls). concat (map (mask_one self m category) ls)) ds))))"

subsection \<open>Configuration records\<close>

text \<open>
  A row of \<open>DictReader\<close> with the columns the code reads. \<open>int\<close> and \<open>float\<close> are Python's
  own conversions, parameters of the model: \<open>None\<close> is a string they reject with
  \<open>ValueError\<close>.
\<close>

record config_row =
  Param :: string
  Value :: string
  data_type :: string

record tech_row = config_row +
  Fuel :: string

definition py_int_of :: "(string \<Rightarrow> int option) \<Rightarrow> string \<Rightarrow> error + pyval" where
  "py_int_of py_int s =
     (case py_int s of None \<Rightarrow> Inl (ValueError ''invalid literal for int()'')
      | Some n \<Rightarrow> Inr (PyInt n))"

definition py_float_of :: "(string \<Rightarrow> real option) \<Rightarrow> string \<Rightarrow> error + pyval" where
  "py_float_of py_float s =
     (case py_float s of None \<Rightarrow> Inl (ValueError ''could not convert string to float'')
      | Some x \<Rightarrow> Inr (PyFloat x))"

definition read_scenario_row ::
  "(string \<Rightarrow> int option) \<Rightarrow> (string \<Rightarrow> real option) \<Rightarrow> (string \<rightharpoonup> pyval) \<Rightarrow> config_row
   \<Rightarrow> error + (string \<rightharpoonup> pyval)" where
  "read_scenario_row py_int py_float config row =
     (if Value row \<noteq> [] then
        (if data_type row = ''int'' then
           bind_err (py_int_of py_int (Value row)) (\<lambda>v. Inr (config(Param row \<mapsto> v)))
         else if data_type row = ''float'' then
           bind_err (py_float_of py_float (Value row)) (\<lambda>v. Inr (config(Param row \<mapsto> v)))
         else if data_type row = ''string'' then
           Inr (config(Param row \<mapsto> PyStr (Value row)))
         else Inl (ValueError ''Config file data type not recognised.''))
      else Inr config)"

fun read_scenario_rows ::
  "(string \<Rightarrow> int option) \<Rightarrow> (string \<Rightarrow> real option) \<Rightarrow> (string \<rightharpoonup> pyval) \<Rightarrow> config_row list
   \<Rightarrow> error + (string \<rightharpoonup> pyval)" where
  "read_scenario_rows py_int py_float config [] = Inr config"
| "read_scenario_rows py_int py_float config (row # rows) =
     bind_err (read_scenario_row py_int py_float config row) (\<lambda>config'.
       read_scenario_rows py_int py_float config' rows)"

definition read_scenario_data ::
  "(string \<Rightarrow> int option) \<Rightarrow> (string \<Rightarrow> real option) \<Rightarrow> OnSSTOVE \<Rightarrow> config_row list
   \<Rightarrow> error + OnSSTOVE" where
  "read_scenario_data py_int py_float self config_file =
     bind_err (read_scenario_rows py_int py_float Map.empty config_file) (\<lambda>config.
       Inr (self\<lparr>specs := Some config\<rparr>))"

text \<open>\<open>techs[row['Fuel']][row['Param']] = v\<close>: the entry for the fuel exists by then.
  (The local dictionary \<open>techs\<close> of the source is \<open>tech_dict\<close> here.)\<close>

definition tech_setitem ::
  "(string \<rightharpoonup> Technology) \<Rightarrow> string \<Rightarrow> string \<Rightarrow> pyval \<Rightarrow> error + (string \<rightharpoonup> Technology)" where
  "tech_setitem tech_dict fuel param v =
     (case tech_dict fuel of
        None \<Rightarrow> Inl (KeyError fuel)
      | Some t \<Rightarrow> bind_err (setitem t param v) (\<lambda>t'. Inr (tech_dict(fuel \<mapsto> t'))))"

definition read_tech_row ::
  "(string \<Rightarrow> int option) \<Rightarrow> (string \<Rightarrow> real option) \<Rightarrow> (string \<rightharpoonup> Technology) \<Rightarrow> tech_row
   \<Rightarrow> error + (string \<rightharpoonup> Technology)" where
  "read_tech_row py_int py_float tech_dict row =
     (if Value row \<noteq> [] then
        (let tech_dict1 = (if Fuel row \<notin> dom tech_dict then tech_dict(Fuel row \<mapsto> Technology_init) else tech_dict)
         in if data_type row = ''int'' then
              bind_err (py_int_of py_int (Value row)) (tech_setitem tech_dict1 (Fuel row) (Param row))
            else if data_type row = ''float'' then
              bind_err (py_float_of py_float (Value row)) (tech_setitem tech_dict1 (Fuel row) (Param row))
            else if data_type row = ''string'' then
              tech_setitem tech_dict1 (Fuel row) (Param row) (PyStr (Value row))
            else Inl (ValueError ''Config file data type not recognised.''))
      else Inr tech_dict)"

fun read_tech_rows ::
  "(string \<Rightarrow> int option) \<Rightarrow> (string \<Rightarrow> real option) \<Rightarrow> (string \<rightharpoonup> Technology) \<Rightarrow> tech_row list
   \<Rightarrow> error + (string \<rightharpoonup> Technology)" where
  "read_tech_rows py_int py_float tech_dict [] = Inr tech_dict"
| "read_tech_rows py_int py_float tech_dict (row # rows) =
     bind_err (read_tech_row py_int py_float tech_dict row) (\<lambda>tech_dict'.
       read_tech_rows py_int py_float tech_dict' rows)"

definition read_tech_data ::
  "(string \<Rightarrow> int option) \<Rightarrow> (string \<Rightarrow> real option) \<Rightarrow> OnSSTOVE \<Rightarrow> tech_row list
   \<Rightarrow> error + OnSSTOVE" where
  "read_tech_data py_int py_float self config_file =
     bind_err (read_tech_rows py_int py_float Map.empty config_file) (\<lambda>ts.
       Inr (self\<lparr>techs := Some ts\<rparr>))"

subsection \<open>Population and urban calibration\<close>

definition get_gdf :: "OnSSTOVE \<Rightarrow> error + frame" where
  "get_gdf self = (case gdf self of None \<Rightarrow> Inl (AttributeError ''gdf'') | Some g \<Rightarrow> Inr g)"

definition column :: "frame \<Rightarrow> string \<Rightarrow> error + real list" where
  "column g c = (case columns g c of None \<Rightarrow> Inl (KeyError c) | Some xs \<Rightarrow> Inr xs)"

definition set_column :: "frame \<Rightarrow> string \<Rightarrow> real list \<Rightarrow> frame" where
  "set_column g c xs = g\<lparr>columns := (columns g)(c \<mapsto> xs)\<rparr>"

definition get_spec :: "OnSSTOVE \<Rightarrow> string \<Rightarrow> error + pyval" where
  "get_spec self k =
     (case specs self of
        None \<Rightarrow> Inl (TypeError ''NoneType object is not subscriptable'')
      | Some sp \<Rightarrow> (case sp k of None \<Rightarrow> Inl (KeyError k) | Some v \<Rightarrow> Inr v))"

text \<open>
  \<open>calibrate_pop\<close>. The division is numpy's, which gives \<open>inf\<close> for a zero total: the model
  is faithful where the total is not 0.
\<close>

definition calibrate_pop :: "OnSSTOVE \<Rightarrow> error + OnSSTOVE" where
  "calibrate_pop self =
     bind_err (get_gdf self) (\<lambda>g.
     bind_err (column g ''Pop'') (\<lambda>pop.
     bind_err (get_spec self ''Population_start_year'') (\<lambda>v.
     bind_err (num v) (\<lambda>population_start_year.
       (let total_gis_pop = sum_list pop;
            calibration_factor = population_start_year / total_gis_pop
        in Inr (self\<lparr>gdf := Some (set_column g ''Calibrated_pop''
                                     (map (\<lambda>x. x * calibration_factor) pop))\<rparr>))))))"

text \<open>
  Lines 283 to 287: every point starts at 0, is set to 1 where the first pair of
  thresholds is exceeded, and then to 2 where the second pair is.
\<close>

definition is_urban :: "real \<Rightarrow> real \<Rightarrow> real \<Rightarrow> real" where
  "is_urban factor population density =
     (let u0 = 0;
          u1 = (if population > 5000 * factor \<and> density > 350 * factor then 1 else u0);
          u2 = (if population > 50000 * factor \<and> density > 1500 * factor then 2 else u1)
      in u2)"

text \<open>
  A column divided by \<open>self.cell_size\<close>: by a number element by element, by a pair only
  for a column of two rows, by \<open>None\<close> not at all. Division by a zero cell size gives
  \<open>inf\<close> in pandas and is outside the model.
\<close>

fun series_div :: "real list \<Rightarrow> cellsize option \<Rightarrow> error + real list" where
  "series_div xs None = Inl (TypeError ''unsupported operand type(s) for /'')"
| "series_div xs (Some (CellSize c)) = Inr (map (\<lambda>x. x / c) xs)"
| "series_div xs (Some (CellTuple w h)) =
     (if length xs = 2 then Inr [xs ! 0 / w, xs ! 1 / h]
      else Inl (ValueError ''Lengths must be equal''))"

definition classify_urban :: "cellsize option \<Rightarrow> real \<Rightarrow> frame \<Rightarrow> error + frame" where
  "classify_urban cs factor g =
     (let g0 = set_column g ''IsUrban'' (replicate (nrows g) 0)
      in bind_err (column g0 ''Population'') (\<lambda>population.
         bind_err (series_div population cs) (\<lambda>density.
           Inr (set_column g0 ''IsUrban'' (map2 (is_urban factor) population density)))))"






text \<open>
  The point table of the specification's end-to-end scenario (a 3 by 3 grid with 10000
  people in the centre cell), with the population also under the column name
  \<open>Population\<close> that \<open>calibrate_urban\<close> reads, a cell size of 1 and a target urban share
  of 0.5.
\<close>

definition scenario_model :: OnSSTOVE where
  "scenario_model =
     (OnSSTOVE_init (Some (CellSize 1)) ''output'')
       \<lparr> specs := Some [''Population_start_year'' \<mapsto> PyInt 20000, ''Urban_start'' \<mapsto> PyFloat 0.5],
         gdf := Some \<lparr> nrows = 9,
                       columns = [''Pop'' \<mapsto> [0, 0, 0, 0, 10000, 0, 0, 0, 0],
                                  ''Population'' \<mapsto> [0, 0, 0, 0, 10000, 0, 0, 0, 0]] \<rparr> \<rparr>"

subsection \<open>Example inputs\<close>

text \<open>
  A registry with two layers in one category, the second with a raster friction layer,
  and a mask boundary.
\<close>

definition two_layer_model :: OnSSTOVE where
  "two_layer_model =
     (OnSSTOVE_init None ''output'')
       \<lparr> layers := [(''demand'',
                     [(''a'', RasterLayer ''demand'' ''a'' None),
                      (''b'', VectorLayer ''demand'' ''b''
                                (Some (RasterLayer ''demand'' ''b_friction'' None)))])],
         mask_layer := Some (GeoDataFrame ''mask'') \<rparr>"

text \<open>
  Conversions for the examples: they agree with Python's \<open>int\<close> and \<open>float\<close> on plain
  decimal literals (digits, and digits around one point), the only strings the examples
  convert.
\<close>

definition is_digits :: "string \<Rightarrow> bool" where
  "is_digits s = list_all (\<lambda>c. CHR ''0'' \<le> c \<and> c \<le> CHR ''9'') s"

definition digits_value :: "string \<Rightarrow> int" where
  "digits_value s = foldl (\<lambda>a c. 10 * a + (int (of_char c) - 48)) 0 s"

definition decimal_int :: "string \<Rightarrow> int option" where
  "decimal_int s = (if s \<noteq> [] \<and> is_digits s then Some (digits_value s) else None)"

definition decimal_float :: "string \<Rightarrow> real option" where
  "decimal_float s =
     (let a = takeWhile (\<lambda>c. c \<noteq> CHR ''.'') s;
          b = drop 1 (dropWhile (\<lambda>c. c \<noteq> CHR ''.'') s)
      in if (a \<noteq> [] \<or> b \<noteq> []) \<and> is_digits a \<and> is_digits b
         then Some (of_int (digits_value a) + of_int (digits_value b) / 10 ^ length b)
         else None)"

text \<open>The technology a configuration row writes to: the fuel's entry, or a fresh
  \<open>Technology()\<close> when the fuel has none yet.\<close>

definition tech_entry :: "(string \<rightharpoonup> Technology) \<Rightarrow> string \<Rightarrow> Technology" where
  "tech_entry tech_dict fuel =
     (case tech_dict fuel of None \<Rightarrow> Technology_init | Some t \<Rightarrow> t)"

section \<open>Properties\<close>

lemma setitem_keeps_attrs: "setitem t idx v = Inr t' \<Longrightarrow> attrs t' = attrs t"
  by (auto simp: setitem_def split: if_splits)

text \<open>
  Claim C10. Assignment by string key succeeds for exactly the eleven keys \<open>name\<close>,
  \<open>energy_content\<close>, \<open>carbon_intensity\<close>, \<open>fuel_cost\<close>, \<open>tech_life\<close>, \<open>inv_cost\<close>,
  \<open>infra_cost\<close>, \<open>om_cost\<close>, \<open>time_of_cooking\<close>, \<open>efficiency\<close> and \<open>pm25\<close>; it then
  changes the named field and nothing else. Every other key raises \<open>KeyError\<close> with that
  key, in particular \<open>start_year\<close> and \<open>end_year\<close>, and no successful assignment binds
  or changes an attribute outside the eleven.
\<close>

theorem setitem_accepts_exactly_eleven_keys:
  "setitem t ''name'' v = Inr (t\<lparr>name := v\<rparr>)
   \<and> setitem t ''energy_content'' v = Inr (t\<lparr>energy_content := v\<rparr>)
   \<and> setitem t ''carbon_intensity'' v = Inr (t\<lparr>carbon_intensity := v\<rparr>)
   \<and> setitem t ''fuel_cost'' v = Inr (t\<lparr>fuel_cost := v\<rparr>)
   \<and> setitem t ''tech_life'' v = Inr (t\<lparr>tech_life := v\<rparr>)
   \<and> setitem t ''inv_cost'' v = Inr (t\<lparr>inv_cost := v\<rparr>)
   \<and> setitem t ''infra_cost'' v = Inr (t\<lparr>infra_cost := v\<rparr>)
   \<and> setitem t ''om_cost'' v = Inr (t\<lparr>om_cost := v\<rparr>)
   \<and> setitem t ''time_of_cooking'' v = Inr (t\<lparr>time_of_cooking := v\<rparr>)
   \<and> setitem t ''efficiency'' v = Inr (t\<lparr>efficiency := v\<rparr>)
   \<and> setitem t ''pm25'' v = Inr (t\<lparr>pm25 := v\<rparr>)
   \<and> (idx \<notin> set setitem_keys \<longrightarrow> setitem t idx v = Inl (KeyError idx))
   \<and> ((\<exists>t'. setitem t idx v = Inr t') \<longleftrightarrow> idx \<in> set setitem_keys)
   \<and> setitem t ''start_year'' v = Inl (KeyError ''start_year'')
   \<and> setitem t ''end_year'' v = Inl (KeyError ''end_year'')
   \<and> (\<forall>t'. setitem t idx v = Inr t' \<longrightarrow> attrs t' = attrs t)"
proof -
  have ok: "setitem t ''name'' v = Inr (t\<lparr>name := v\<rparr>)"
    "setitem t ''energy_content'' v = Inr (t\<lparr>energy_content := v\<rparr>)"
    "setitem t ''carbon_intensity'' v = Inr (t\<lparr>carbon_intensity := v\<rparr>)"
    "setitem t ''fuel_cost'' v = Inr (t\<lparr>fuel_cost := v\<rparr>)"
    "setitem t ''tech_life'' v = Inr (t\<lparr>tech_life := v\<rparr>)"
    "setitem t ''inv_cost'' v = Inr (t\<lparr>inv_cost := v\<rparr>)"
    "setitem t ''infra_cost'' v = Inr (t\<lparr>infra_cost := v\<rparr>)"
    "setitem t ''om_cost'' v = Inr (t\<lparr>om_cost := v\<rparr>)"
    "setitem t ''time_of_cooking'' v = Inr (t\<lparr>time_of_cooking := v\<rparr>)"
    "setitem t ''efficiency'' v = Inr (t\<lparr>efficiency := v\<rparr>)"
    "setitem t ''pm25'' v = Inr (t\<lparr>pm25 := v\<rparr>)"
    by (simp_all add: setitem_def)
  have bad: "idx \<notin> set setitem_keys \<longrightarrow> setitem t idx v = Inl (KeyError idx)"
    by (simp add: setitem_def setitem_keys_def)
  have good: "idx \<in> set setitem_keys \<longrightarrow> (\<exists>t'. setitem t idx v = Inr t')"
    using ok by (auto simp: setitem_keys_def)
  have iff: "(\<exists>t'. setitem t idx v = Inr t') \<longleftrightarrow> idx \<in> set setitem_keys"
    using bad good by auto
  have years: "setitem t ''start_year'' v = Inl (KeyError ''start_year'')"
    "setitem t ''end_year'' v = Inl (KeyError ''end_year'')"
    by (simp_all add: setitem_def)
  have rest: "\<forall>t'. setitem t idx v = Inr t' \<longrightarrow> attrs t' = attrs t"
    using setitem_keeps_attrs by blast
  show ?thesis using ok bad iff years rest by simp
qed

theorem setitem_accepts_exactly_eleven_keys_witness:
  "''colour'' \<notin> set setitem_keys
   \<and> setitem Technology_init ''colour'' (PyInt 3) = Inl (KeyError ''colour'')
   \<and> ''pm25'' \<in> set setitem_keys
   \<and> setitem Technology_init ''pm25'' (PyInt 3) = Inr (Technology_init\<lparr>pm25 := PyInt 3\<rparr>)
   \<and> attrs (Technology_init\<lparr>pm25 := PyInt 3\<rparr>) = attrs Technology_init"
  using setitem_accepts_exactly_eleven_keys [of Technology_init "PyInt 3" "''colour''"]
    setitem_accepts_exactly_eleven_keys [of Technology_init "PyInt 3" "''pm25''"]
  by (simp add: setitem_keys_def)

subsection \<open>Relative risk\<close>

lemma saturating_curve_limit:
  fixes a b c t :: real
  assumes a: "0 < a" and b: "0 < b"
  shows "((\<lambda>p. if p < t then 1 else 1 + c * (1 - exp ((- a) * ((p - t) powr b))))
          \<longlongrightarrow> 1 + c) at_top"
proof -
  have shift: "LIM p at_top. p - t :> at_top"
    using filterlim_tendsto_add_at_top[OF tendsto_const[of "- t"] filterlim_ident[of at_top]]
    by (simp add: algebra_simps)
  have "LIM p at_top. ln (p - t) :> at_top"
    by (rule filterlim_compose[OF ln_at_top shift])
  then have "LIM p at_top. b * ln (p - t) :> at_top"
    by (rule filterlim_tendsto_pos_mult_at_top[OF tendsto_const b])
  then have e: "LIM p at_top. exp (b * ln (p - t)) :> at_top"
    by (rule filterlim_compose[OF exp_at_top])
  have ev: "\<forall>\<^sub>F p in at_top. exp (b * ln (p - t)) = (p - t) powr b"
    using eventually_gt_at_top[of t] by eventually_elim (simp add: powr_def)
  have pw: "LIM p at_top. (p - t) powr b :> at_top"
    by (rule filterlim_mono_eventually[OF e order_refl order_refl ev])
  have "LIM p at_top. (- a) * ((p - t) powr b) :> at_bot"
    by (rule filterlim_tendsto_neg_mult_at_bot[OF tendsto_const _ pw]) (use a in simp)
  then have "((\<lambda>p. exp ((- a) * ((p - t) powr b))) \<longlongrightarrow> 0) at_top"
    by (rule filterlim_compose[OF exp_at_bot])
  then have "((\<lambda>p. 1 + c * (1 - exp ((- a) * ((p - t) powr b)))) \<longlongrightarrow> 1 + c * (1 - 0)) at_top"
    by (intro tendsto_intros)
  then have lim: "((\<lambda>p. 1 + c * (1 - exp ((- a) * ((p - t) powr b)))) \<longlongrightarrow> 1 + c) at_top"
    by simp
  have "\<forall>\<^sub>F p in at_top. 1 + c * (1 - exp ((- a) * ((p - t) powr b)))
          = (if p < t then 1 else 1 + c * (1 - exp ((- a) * ((p - t) powr b))))"
    using eventually_ge_at_top[of t] by eventually_elim simp
  with lim show ?thesis by (rule Lim_transform_eventually)
qed

lemma rr_alri_limit: "(rr_alri \<longlongrightarrow> 1 + 2.383) at_top"
  using saturating_curve_limit[of "0.004" "1.193" "7.298" "2.383"]
  by (simp add: rr_alri_def[abs_def])

lemma rr_copd_limit: "(rr_copd \<longlongrightarrow> 1 + 22.485) at_top"
  using saturating_curve_limit[of "0.001" "0.694" "7.337" "22.485"]
  by (simp add: rr_copd_def[abs_def])

lemma rr_ihd_limit: "(rr_ihd \<longlongrightarrow> 1 + 2.538) at_top"
  using saturating_curve_limit[of "0.081" "0.466" "7.505" "2.538"]
  by (simp add: rr_ihd_def[abs_def])

lemma rr_lc_limit: "(rr_lc \<longlongrightarrow> 1 + 152.496) at_top"
  using saturating_curve_limit[of "0.000167" "0.76" "7.345" "152.496"]
  by (simp add: rr_lc_def[abs_def])

text \<open>
  Claim C2. For a technology whose \<open>pm25\<close> is the number \<open>p\<close>, the four relative risks
  are the four curves at \<open>p\<close>. Each curve is exactly 1 for \<open>p\<close> at or below its
  threshold (7.298 for ALRI, 7.337 for COPD, 7.505 for IHD, 7.345 for lung cancer), and
  tends to 1 plus its coefficient (2.383, 22.485, 2.538, 152.496) as \<open>p\<close> grows without
  bound.
\<close>

theorem relative_risk_threshold_and_limit:
  "(num (pm25 tech) = Inr p \<longrightarrow>
      relative_risk tech = Inr (rr_alri p, rr_copd p, rr_ihd p, rr_lc p))
   \<and> (p \<le> 7.298 \<longrightarrow> rr_alri p = 1)
   \<and> (p \<le> 7.337 \<longrightarrow> rr_copd p = 1)
   \<and> (p \<le> 7.505 \<longrightarrow> rr_ihd p = 1)
   \<and> (p \<le> 7.345 \<longrightarrow> rr_lc p = 1)
   \<and> (rr_alri \<longlongrightarrow> 1 + 2.383) at_top
   \<and> (rr_copd \<longlongrightarrow> 1 + 22.485) at_top
   \<and> (rr_ihd \<longlongrightarrow> 1 + 2.538) at_top
   \<and> (rr_lc \<longlongrightarrow> 1 + 152.496) at_top"
proof -
  have rr: "num (pm25 tech) = Inr p \<longrightarrow>
      relative_risk tech = Inr (rr_alri p, rr_copd p, rr_ihd p, rr_lc p)"
    by (simp add: relative_risk_def bind_err_def)
  have below: "p \<le> 7.298 \<longrightarrow> rr_alri p = 1" "p \<le> 7.337 \<longrightarrow> rr_copd p = 1"
    "p \<le> 7.505 \<longrightarrow> rr_ihd p = 1" "p \<le> 7.345 \<longrightarrow> rr_lc p = 1"
    by (simp_all add: rr_alri_def rr_copd_def rr_ihd_def rr_lc_def)
  show ?thesis
    using rr below rr_alri_limit rr_copd_limit rr_ihd_limit rr_lc_limit by blast
qed

theorem relative_risk_threshold_and_limit_witness:
  "num (pm25 (Technology_init\<lparr>pm25 := PyFloat 7.298\<rparr>)) = Inr 7.298
   \<and> relative_risk (Technology_init\<lparr>pm25 := PyFloat 7.298\<rparr>) = Inr (1, 1, 1, 1)"
  using relative_risk_threshold_and_limit[of "Technology_init\<lparr>pm25 := PyFloat 7.298\<rparr>" "7.298"]
  by simp

subsection \<open>Morbidity and mortality\<close>

lemma cohort_loop_returns:
  assumes "cohort_loop body i U R = Some y"
  shows "i < 6 \<longrightarrow> (\<exists>e. body i = Inl e \<and> y = Inl e)"
proof (rule cohort_loop.raw_induct[where P = "\<lambda>body i U R y. i < 6 \<longrightarrow> (\<exists>e. body i = Inl e \<and> y = Inl e)", OF _ assms])
  fix loop :: "(int \<Rightarrow> error + real \<times> real) \<Rightarrow> int \<Rightarrow> real list \<Rightarrow> real list
                \<Rightarrow> (error + real list \<times> real list) option"
    and body i U R y
  assume IH: "\<And>body i U R y. loop body i U R = Some y
                \<Longrightarrow> i < 6 \<longrightarrow> (\<exists>e. body i = Inl e \<and> y = Inl e)"
    and step: "(if i < 6 then
                  (case body i of Inl e \<Rightarrow> Some (Inl e)
                   | Inr tot \<Rightarrow> loop body i (U @ [fst tot]) (R @ [snd tot]))
                else Some (Inr (U, R))) = Some y"
  show "i < 6 \<longrightarrow> (\<exists>e. body i = Inl e \<and> y = Inl e)"
  proof
    assume lt: "i < 6"
    show "\<exists>e. body i = Inl e \<and> y = Inl e"
    proof (cases "body i")
      case (Inl e)
      with step lt show ?thesis by simp
    next
      case (Inr tot)
      with step lt have "loop body i (U @ [fst tot]) (R @ [snd tot]) = Some y" by simp
      from IH[OF this] lt Inr show ?thesis by simp
    qed
  qed
qed

lemma cohort_loop_diverges:
  "i < 6 \<Longrightarrow> body i = Inr tot \<Longrightarrow> cohort_loop body i U R = None"
  using cohort_loop_returns[of body i U R] by (cases "cohort_loop body i U R") auto

lemma cohort_loop_no_vectors: "cohort_loop body 1 U R \<noteq> Some (Inr v)"
  using cohort_loop_returns[of body 1 U R "Inr v"] by auto

lemma morbidity_returns_no_value:
  "morbidity sy ey tech d hR hU c1 c2 c3 c4 i1 i2 i3 i4 sfu \<noteq> Some (Inr v)"
  unfolding morbidity_def
  by (auto simp: sum_vectors_def cohort_loop_no_vectors split: option.splits sum.splits)

lemma mortality_returns_no_value:
  "mortality sy ey tech d hR hU vsl m1 m2 m3 m4 sfu \<noteq> Some (Inr v)"
  unfolding mortality_def
  by (auto simp: sum_vectors_def cohort_loop_no_vectors split: option.splits sum.splits)

lemma attributable_cases_scenario:
  "attributable_cases scenario_tech 1 5 4 r1 r2 r3 r4 = Inr ((0, 0, 0, 0), (0, 0, 0, 0))"
  by (simp add: attributable_cases_def scenario_tech_def Technology_init_def bind_err_def
      paf_def py_truediv_def rr_alri_def rr_copd_def rr_ihd_def rr_lc_def)

lemma cohort_totals_scenario:
  "cohort_totals v ((0, 0, 0, 0), (0, 0, 0, 0)) 0.03 2020 2030 1 = Inr (0, 0)"
  by (cases v)
     (simp add: cohort_totals_def cohort_term_def cl_alri_def cl_copd_def cl_lc_def cl_ihd_def
       bind_err_def py_pow_def py_truediv_def)

text \<open>
  Claim C3 says that \<open>morbidity\<close> and \<open>mortality\<close> terminate for every input, summing over
  the five cohorts. In the code the loop counter is never advanced: for the technology of
  the end-to-end scenario (\<open>pm25 = 0\<close>), the years 2020 and 2030, a social discount rate
  of 0.03, household sizes 5 and 4 and every cost, rate and \<open>sfu\<close> equal to 1, neither
  function returns; and for no input at all does either return a value.
\<close>

theorem morbidity_mortality_do_not_return:
  "morbidity 2020 2030 scenario_tech 0.03 5 4 1 1 1 1 1 1 1 1 1 = None
   \<and> mortality 2020 2030 scenario_tech 0.03 5 4 1 1 1 1 1 1 = None
   \<and> (\<forall>v. morbidity sy ey tech d hR hU c1 c2 c3 c4 i1 i2 i3 i4 sfu \<noteq> Some (Inr v))
   \<and> (\<forall>v. mortality sy ey tech d hR hU vsl m1 m2 m3 m4 sfu \<noteq> Some (Inr v))"
proof -
  have loop: "cohort_loop
      (cohort_totals (1, 1, 1, 1) ((0, 0, 0, 0), (0, 0, 0, 0)) 0.03 2020 2030) 1 [] [] = None"
    by (rule cohort_loop_diverges[where tot = "(0, 0)"]) (simp, rule cohort_totals_scenario)
  have a: "morbidity 2020 2030 scenario_tech 0.03 5 4 1 1 1 1 1 1 1 1 1 = None"
    using loop
    by (simp add: morbidity_def attributable_cases_scenario sum_vectors_def)
  have b: "mortality 2020 2030 scenario_tech 0.03 5 4 1 1 1 1 1 1 = None"
    using loop
    by (simp add: mortality_def attributable_cases_scenario sum_vectors_def)
  show ?thesis
    using a b morbidity_returns_no_value mortality_returns_no_value by simp
qed

subsection \<open>Discounted series and net cost\<close>

lemma bind_err_Inl: "bind_err (Inl e) f = Inl e"
  by (simp add: bind_err_def)

lemma bind_err_Inr: "bind_err (Inr x) f = f x"
  by (simp add: bind_err_def)

lemma discount_factor_scenario:
  "discount_factor r scenario_tech = Inr (map (\<lambda>y. (1 + r) ^ y) [0..<10], PyInt 10)"
  by (simp add: discount_factor_def scenario_tech_def Technology_init_def getattr_extra_def
      bind_err_Inr)

lemma discounted_inv_scenario:
  "discounted_inv r scenario_tech = Inl (NameError ''project_life'')"
  by (simp add: discounted_inv_def discount_factor_scenario unbound_name_def bind_err_def)

lemma discounted_inv_no_series: "discounted_inv r tech \<noteq> Inr v"
  by (cases "discount_factor r tech")
     (auto simp: discounted_inv_def unbound_name_def bind_err_def split: prod.splits)

lemma cost_no_series: "cost r tech m rf lpg \<noteq> Inr v"
  by (cases "discounted_inv r tech") (auto simp: cost_def bind_err_def discounted_inv_no_series)

text \<open>
  Claim C6 describes the series \<open>discounted_inv\<close> returns. The code returns none: where
  \<open>discount_factor\<close> succeeds (the scenario technology, with a project life of 10 years),
  the next line reads the unbound name \<open>project_life\<close>; for a technology that only
  \<open>__init__\<close> and \<open>__setitem__\<close> have touched, \<open>discount_factor\<close> itself fails on
  \<open>tech.start_year\<close>.
\<close>

theorem discounted_inv_raises:
  "discount_factor r scenario_tech = Inr (map (\<lambda>y. (1 + r) ^ y) [0..<10], PyInt 10)
   \<and> discounted_inv r scenario_tech = Inl (NameError ''project_life'')
   \<and> discounted_inv r Technology_init = Inl (AttributeError ''start_year'')
   \<and> (\<forall>v. discounted_inv r tech \<noteq> Inr v)"
proof -
  have b: "discounted_inv r Technology_init = Inl (AttributeError ''start_year'')"
    by (simp add: discounted_inv_def discount_factor_def Technology_init_def getattr_extra_def
        bind_err_def)
  show ?thesis
    using discount_factor_scenario discounted_inv_scenario b discounted_inv_no_series by simp
qed

text \<open>
  Claim C1 says \<open>net_costs\<close> returns cost minus benefit. The code returns nothing for any
  input: \<open>cost\<close> starts with \<open>discounted_inv\<close>, which always raises. For the scenario
  technology the exception is the \<open>NameError\<close> for \<open>project_life\<close>.
\<close>

theorem net_costs_raises:
  "net_costs r scenario_tech m () () vot tt = Inl (NameError ''project_life'')
   \<and> (\<forall>v. net_costs r tech m rf lpg vot tt \<noteq> Inr v)"
proof -
  have a: "net_costs r scenario_tech m () () vot tt = Inl (NameError ''project_life'')"
    by (simp add: net_costs_def cost_def discounted_inv_scenario bind_err_Inl)
  have b: "\<forall>v. net_costs r tech m rf lpg vot tt \<noteq> Inr v"
    by (cases "cost r tech m rf lpg") (auto simp: net_costs_def bind_err_def cost_no_series)
  show ?thesis using a b by simp
qed

subsection \<open>Population calibration\<close>

lemma sum_list_scaled: "sum_list (map (\<lambda>x. x * c) xs) = sum_list xs * (c::real)"
  by (induction xs) (simp_all add: algebra_simps)

text \<open>
  Claim C8. When the \<open>Pop\<close> column has a positive sum and the configured
  \<open>Population_start_year\<close> is a positive number \<open>x\<close>, \<open>calibrate_pop\<close> succeeds and
  writes a column \<open>Calibrated_pop\<close> with one entry per point, each equal to the point's
  \<open>Pop\<close> times \<open>x\<close> divided by the total \<open>Pop\<close>; the entries sum to \<open>x\<close>.
\<close>

theorem calibrate_pop_sums_to_start_year:
  assumes g: "gdf self = Some g" and pop: "columns g ''Pop'' = Some pop"
    and sp: "specs self = Some sp" and v: "sp ''Population_start_year'' = Some v"
    and x: "num v = Inr x" and pos: "0 < sum_list pop" "0 < x"
  shows "\<exists>g' cal. calibrate_pop self = Inr (self\<lparr>gdf := Some g'\<rparr>)
           \<and> columns g' ''Calibrated_pop'' = Some cal
           \<and> length cal = length pop
           \<and> (\<forall>i < length pop. cal ! i = pop ! i * x / sum_list pop)
           \<and> sum_list cal = x"
proof -
  let ?cal = "map (\<lambda>p. p * (x / sum_list pop)) pop"
  let ?g' = "set_column g ''Calibrated_pop'' ?cal"
  have run: "calibrate_pop self = Inr (self\<lparr>gdf := Some ?g'\<rparr>)"
    using g pop sp v x
    by (simp add: calibrate_pop_def get_gdf_def column_def get_spec_def bind_err_Inr)
  have col: "columns ?g' ''Calibrated_pop'' = Some ?cal"
    by (simp add: set_column_def)
  have each: "\<forall>i < length pop. ?cal ! i = pop ! i * x / sum_list pop"
    by simp
  have "sum_list ?cal = sum_list pop * (x / sum_list pop)"
    by (rule sum_list_scaled)
  then have total: "sum_list ?cal = x"
    using pos by simp
  have len: "length ?cal = length pop" by simp
  show ?thesis using run col len each total by blast
qed

theorem calibrate_pop_sums_to_start_year_witness:
  "0 < sum_list [0, 0, 0, 0, 10000, 0, 0, 0, 0 :: real] \<and> 0 < (20000 :: real)
   \<and> (\<exists>g' cal. calibrate_pop scenario_model = Inr (scenario_model\<lparr>gdf := Some g'\<rparr>)
      \<and> columns g' ''Calibrated_pop'' = Some cal
      \<and> length cal = length [0, 0, 0, 0, 10000, 0, 0, 0, 0 :: real]
      \<and> (\<forall>i < length [0, 0, 0, 0, 10000, 0, 0, 0, 0 :: real].
            cal ! i = [0, 0, 0, 0, 10000, 0, 0, 0, 0] ! i * 20000
                        / sum_list [0, 0, 0, 0, 10000, 0, 0, 0, 0])
      \<and> sum_list cal = 20000)"
proof (intro conjI)
  show "0 < sum_list [0, 0, 0, 0, 10000, 0, 0, 0, 0 :: real]" by simp
  show "0 < (20000 :: real)" by simp
  show "\<exists>g' cal. calibrate_pop scenario_model = Inr (scenario_model\<lparr>gdf := Some g'\<rparr>)
      \<and> columns g' ''Calibrated_pop'' = Some cal
      \<and> length cal = length [0, 0, 0, 0, 10000, 0, 0, 0, 0 :: real]
      \<and> (\<forall>i < length [0, 0, 0, 0, 10000, 0, 0, 0, 0 :: real].
            cal ! i = [0, 0, 0, 0, 10000, 0, 0, 0, 0] ! i * 20000
                        / sum_list [0, 0, 0, 0, 10000, 0, 0, 0, 0])
      \<and> sum_list cal = 20000"
    by (rule calibrate_pop_sums_to_start_year[of scenario_model
          "\<lparr> nrows = 9, columns = [''Pop'' \<mapsto> [0, 0, 0, 0, 10000, 0, 0, 0, 0],
                                  ''Population'' \<mapsto> [0, 0, 0, 0, 10000, 0, 0, 0, 0]] \<rparr>"
          _
          "[''Population_start_year'' \<mapsto> PyInt 20000, ''Urban_start'' \<mapsto> PyFloat 0.5]"
          "PyInt 20000"])
       (simp_all add: scenario_model_def OnSSTOVE_init_def)
qed

subsection \<open>Urban calibration\<close>

text \<open>
  Claim C5 as stated fails: a point with a population of 60000 in a cell of size 1
  exceeds the first pair of thresholds at factor 1 (5000 and 350), and is classified 2,
  not 1.
\<close>

theorem classify_urban_counterexample:
  "(60000 :: real) > 5000 * 1 \<and> (60000 :: real) / 1 > 350 * 1
   \<and> classify_urban (Some (CellSize 1)) 1 \<lparr> nrows = 1, columns = [''Population'' \<mapsto> [60000]] \<rparr>
       = Inr \<lparr> nrows = 1, columns = [''Population'' \<mapsto> [60000], ''IsUrban'' \<mapsto> [2]] \<rparr>"
  by (simp add: classify_urban_def set_column_def column_def bind_err_def is_urban_def)

text \<open>
  Claim C5, amended. With a point table that has a \<open>Population\<close> column and a cell size
  \<open>c\<close> that is a number other than 0, the classification of one iteration succeeds and
  gives every point an \<open>IsUrban\<close> value: 2 exactly when its population exceeds
  \<open>50000 * factor\<close> and its density exceeds \<open>1500 * factor\<close>; 1 exactly when its
  population exceeds \<open>5000 * factor\<close> and its density exceeds \<open>350 * factor\<close> and it is
  not classified 2; and 0 exactly when it meets neither pair of thresholds.
\<close>

theorem classify_urban_tiers:
  assumes pop: "columns g ''Population'' = Some pop" and c: "c \<noteq> 0"
  shows "\<exists>g' u. classify_urban (Some (CellSize c)) factor g = Inr g'
           \<and> columns g' ''IsUrban'' = Some u \<and> length u = length pop
           \<and> (\<forall>i < length pop.
                (u ! i = 2 \<longleftrightarrow> pop ! i > 50000 * factor \<and> pop ! i / c > 1500 * factor)
              \<and> (u ! i = 1 \<longleftrightarrow> (pop ! i > 5000 * factor \<and> pop ! i / c > 350 * factor)
                                \<and> \<not> (pop ! i > 50000 * factor \<and> pop ! i / c > 1500 * factor))
              \<and> (u ! i = 0 \<longleftrightarrow> \<not> (pop ! i > 5000 * factor \<and> pop ! i / c > 350 * factor)
                                \<and> \<not> (pop ! i > 50000 * factor \<and> pop ! i / c > 1500 * factor)))"
proof -
  let ?u = "map2 (is_urban factor) pop (map (\<lambda>x. x / c) pop)"
  let ?g' = "set_column (set_column g ''IsUrban'' (replicate (nrows g) 0)) ''IsUrban'' ?u"
  have run: "classify_urban (Some (CellSize c)) factor g = Inr ?g'"
    using pop by (simp add: classify_urban_def set_column_def column_def bind_err_def)
  have col: "columns ?g' ''IsUrban'' = Some ?u"
    by (simp add: set_column_def)
  have len: "length ?u = length pop" by simp
  have each: "\<forall>i < length pop.
                (?u ! i = 2 \<longleftrightarrow> pop ! i > 50000 * factor \<and> pop ! i / c > 1500 * factor)
              \<and> (?u ! i = 1 \<longleftrightarrow> (pop ! i > 5000 * factor \<and> pop ! i / c > 350 * factor)
                                \<and> \<not> (pop ! i > 50000 * factor \<and> pop ! i / c > 1500 * factor))
              \<and> (?u ! i = 0 \<longleftrightarrow> \<not> (pop ! i > 5000 * factor \<and> pop ! i / c > 350 * factor)
                                \<and> \<not> (pop ! i > 50000 * factor \<and> pop ! i / c > 1500 * factor))"
    by (simp add: is_urban_def)
  show ?thesis using run col len each by blast
qed

theorem classify_urban_tiers_witness:
  "(1 :: real) \<noteq> 0
   \<and> columns \<lparr> nrows = 2, columns = [''Population'' \<mapsto> [10000, 60000]] \<rparr> ''Population''
       = Some [10000, 60000]
   \<and> (\<exists>g' u. classify_urban (Some (CellSize 1)) 1
                 \<lparr> nrows = 2, columns = [''Population'' \<mapsto> [10000, 60000]] \<rparr> = Inr g'
         \<and> columns g' ''IsUrban'' = Some u \<and> length u = 2 \<and> u ! 0 = 1 \<and> u ! 1 = 2)"
proof -
  let ?fr = "\<lparr> nrows = 2, columns = [''Population'' \<mapsto> [10000, 60000 :: real]] \<rparr>"
  have h1: "columns ?fr ''Population'' = Some [10000, 60000]" by simp
  have h2: "(1 :: real) \<noteq> 0" by simp
  from classify_urban_tiers[OF h1 h2, of 1]
  obtain g' u where run: "classify_urban (Some (CellSize 1)) 1 ?fr = Inr g'"
    and col: "columns g' ''IsUrban'' = Some u"
    and len: "length u = length [10000, 60000 :: real]"
    and each: "\<forall>i < length [10000, 60000 :: real].
                (u ! i = 2 \<longleftrightarrow> [10000, 60000] ! i > 50000 * (1::real) \<and> [10000, 60000] ! i / 1 > 1500 * (1::real))
              \<and> (u ! i = 1 \<longleftrightarrow> ([10000, 60000] ! i > 5000 * (1::real) \<and> [10000, 60000] ! i / 1 > 350 * (1::real))
                                \<and> \<not> ([10000, 60000] ! i > 50000 * (1::real) \<and> [10000, 60000] ! i / 1 > 1500 * (1::real)))
              \<and> (u ! i = 0 \<longleftrightarrow> \<not> ([10000, 60000] ! i > 5000 * (1::real) \<and> [10000, 60000] ! i / 1 > 350 * (1::real))
                                \<and> \<not> ([10000, 60000] ! i > 50000 * (1::real) \<and> [10000, 60000] ! i / 1 > 1500 * (1::real)))"
    by blast
  from each[rule_format, of 0] have u0: "u ! 0 = 1" by simp
  from each[rule_format, of 1] have u1: "u ! 1 = 2" by simp
  from len have l2: "length u = 2" by simp
  show ?thesis using h1 h2 run col l2 u0 u1 by blast
qed







subsection \<open>Masking\<close>

text \<open>
  Claim C9 says masking processes every (category, name) pair of an explicit selection.
  For the selection \<open>{'demand': ['a', 'b']}\<close> on a registry that holds both layers,
  \<open>get_layers\<close> returns only the entry for \<open>b\<close>, and \<open>mask_layers\<close> masks \<open>b\<close> and its
  friction layer and never \<open>a\<close>. Without a mask boundary \<open>mask_layers\<close> raises.
\<close>

theorem mask_layers_keeps_last_name:
  "get_layers two_layer_model (Names [(''demand'', [''a'', ''b''])])
     = Inr [(''demand'', [(''b'', VectorLayer ''demand'' ''b''
                                   (Some (RasterLayer ''demand'' ''b_friction'' None)))])]
   \<and> mask_layers two_layer_model (Names [(''demand'', [''a'', ''b''])])
     = Inr [Makedirs ''output/demand/b'',
            Mask (VectorLayer ''demand'' ''b'' (Some (RasterLayer ''demand'' ''b_friction'' None)))
              (GeoDataFrame ''mask'') ''output/demand/b'',
            Mask (RasterLayer ''demand'' ''b_friction'' None)
              (GeoDataFrame ''mask'') ''output/demand/b'']
   \<and> (\<exists>msg. mask_layers (two_layer_model\<lparr>mask_layer := None\<rparr>) (Names [(''demand'', [''a'', ''b''])])
     = Inl (Exception msg))"
  by (simp add: mask_layers_def get_layers_def get_layer_def two_layer_model_def
      OnSSTOVE_init_def bind_err_def mask_one_def path_join_def Let_def)

subsection \<open>Configuration records\<close>

lemma decimal_int_2020: "decimal_int ''2020'' = Some 2020"
  by (simp add: decimal_int_def is_digits_def digits_value_def less_eq_char_def)

lemma decimal_float_half: "decimal_float ''0.5'' = Some 0.5"
  by (simp add: decimal_float_def is_digits_def digits_value_def less_eq_char_def)

text \<open>
  Claim C7 as stated fails on two rows. In the per-technology variant the row
  \<open>lpg; start_year; 2020; int\<close> has a recognised type and a value that converts, yet
  nothing is stored: \<open>__setitem__\<close> raises \<open>KeyError\<close>. And a row with an empty value and
  the unrecognised type \<open>bool\<close> is skipped without any error.
\<close>

theorem config_row_counterexample:
  "read_tech_row decimal_int decimal_float Map.empty
      \<lparr> Param = ''start_year'', Value = ''2020'', data_type = ''int'', Fuel = ''lpg'' \<rparr>
     = Inl (KeyError ''start_year'')
   \<and> read_scenario_row decimal_int decimal_float Map.empty
      \<lparr> Param = ''Urban_start'', Value = [], data_type = ''bool'' \<rparr> = Inr Map.empty"
  by (simp add: read_tech_row_def read_scenario_row_def py_int_of_def decimal_int_2020
      tech_setitem_def setitem_def bind_err_def)

text \<open>
  Claim C7, amended. For a scenario row and a per-technology row, whatever Python's \<open>int\<close>
  and \<open>float\<close> do: a row with an empty \<open>Value\<close> leaves the dictionary as it is, without
  error; a scenario row with a non-empty \<open>Value\<close> and type \<open>int\<close>, \<open>float\<close> or \<open>string\<close>
  whose value converts stores the converted value under its \<open>Param\<close> key; a
  per-technology row of that kind assigns the converted value to the \<open>Param\<close> key of its
  fuel's technology (a fresh one when the fuel is new) through \<open>__setitem__\<close>, storing the
  updated technology under the fuel or raising what \<open>__setitem__\<close> raises; and a row with
  a non-empty \<open>Value\<close> and any other type raises \<open>ValueError\<close>.
\<close>

theorem config_rows_amended:
  fixes row :: config_row and trow :: tech_row
  shows
  "(Value row = [] \<longrightarrow> read_scenario_row py_int py_float config row = Inr config)
   \<and> (Value trow = [] \<longrightarrow> read_tech_row py_int py_float td trow = Inr td)
   \<and> (Value row \<noteq> [] \<and> data_type row = ''int'' \<and> py_int (Value row) = Some n \<longrightarrow>
        read_scenario_row py_int py_float config row = Inr (config(Param row \<mapsto> PyInt n)))
   \<and> (Value row \<noteq> [] \<and> data_type row = ''float'' \<and> py_float (Value row) = Some x \<longrightarrow>
        read_scenario_row py_int py_float config row = Inr (config(Param row \<mapsto> PyFloat x)))
   \<and> (Value row \<noteq> [] \<and> data_type row = ''string'' \<longrightarrow>
        read_scenario_row py_int py_float config row
          = Inr (config(Param row \<mapsto> PyStr (Value row))))
   \<and> (Value row \<noteq> [] \<and> data_type row \<notin> {''int'', ''float'', ''string''} \<longrightarrow>
        read_scenario_row py_int py_float config row
          = Inl (ValueError ''Config file data type not recognised.''))
   \<and> (Value trow \<noteq> [] \<and> data_type trow \<notin> {''int'', ''float'', ''string''} \<longrightarrow>
        read_tech_row py_int py_float td trow
          = Inl (ValueError ''Config file data type not recognised.''))
   \<and> (Value trow \<noteq> [] \<and> data_type trow = ''int'' \<and> py_int (Value trow) = Some n \<longrightarrow>
        read_tech_row py_int py_float td trow
          = map_sum id (\<lambda>t'. td(Fuel trow \<mapsto> t'))
              (setitem (tech_entry td (Fuel trow)) (Param trow) (PyInt n)))
   \<and> (Value trow \<noteq> [] \<and> data_type trow = ''float'' \<and> py_float (Value trow) = Some x \<longrightarrow>
        read_tech_row py_int py_float td trow
          = map_sum id (\<lambda>t'. td(Fuel trow \<mapsto> t'))
              (setitem (tech_entry td (Fuel trow)) (Param trow) (PyFloat x)))
   \<and> (Value trow \<noteq> [] \<and> data_type trow = ''string'' \<longrightarrow>
        read_tech_row py_int py_float td trow
          = map_sum id (\<lambda>t'. td(Fuel trow \<mapsto> t'))
              (setitem (tech_entry td (Fuel trow)) (Param trow) (PyStr (Value trow))))"
proof -
  have store: "tech_setitem (if Fuel trow \<notin> dom td then td(Fuel trow \<mapsto> Technology_init) else td)
                 (Fuel trow) (Param trow) v
               = map_sum id (\<lambda>t'. td(Fuel trow \<mapsto> t'))
                   (setitem (tech_entry td (Fuel trow)) (Param trow) v)" for v
    by (cases "setitem (tech_entry td (Fuel trow)) (Param trow) v")
       (auto simp: tech_setitem_def tech_entry_def bind_err_def domIff split: option.splits)
  have s: "Value row = [] \<longrightarrow> read_scenario_row py_int py_float config row = Inr config"
    "Value row \<noteq> [] \<and> data_type row = ''int'' \<and> py_int (Value row) = Some n \<longrightarrow>
        read_scenario_row py_int py_float config row = Inr (config(Param row \<mapsto> PyInt n))"
    "Value row \<noteq> [] \<and> data_type row = ''float'' \<and> py_float (Value row) = Some x \<longrightarrow>
        read_scenario_row py_int py_float config row = Inr (config(Param row \<mapsto> PyFloat x))"
    "Value row \<noteq> [] \<and> data_type row = ''string'' \<longrightarrow>
        read_scenario_row py_int py_float config row
          = Inr (config(Param row \<mapsto> PyStr (Value row)))"
    "Value row \<noteq> [] \<and> data_type row \<notin> {''int'', ''float'', ''string''} \<longrightarrow>
        read_scenario_row py_int py_float config row
          = Inl (ValueError ''Config file data type not recognised.'')"
    by (simp_all add: read_scenario_row_def py_int_of_def py_float_of_def bind_err_def)
  have t: "Value trow = [] \<longrightarrow> read_tech_row py_int py_float td trow = Inr td"
    "Value trow \<noteq> [] \<and> data_type trow \<notin> {''int'', ''float'', ''string''} \<longrightarrow>
        read_tech_row py_int py_float td trow
          = Inl (ValueError ''Config file data type not recognised.'')"
    by (simp_all add: read_tech_row_def Let_def)
  have ti: "Value trow \<noteq> [] \<and> data_type trow = ''int'' \<and> py_int (Value trow) = Some n \<longrightarrow>
        read_tech_row py_int py_float td trow
          = map_sum id (\<lambda>t'. td(Fuel trow \<mapsto> t'))
              (setitem (tech_entry td (Fuel trow)) (Param trow) (PyInt n))"
    using store[of "PyInt n"]
    by (simp add: read_tech_row_def Let_def py_int_of_def bind_err_def)
  have tf: "Value trow \<noteq> [] \<and> data_type trow = ''float'' \<and> py_float (Value trow) = Some x \<longrightarrow>
        read_tech_row py_int py_float td trow
          = map_sum id (\<lambda>t'. td(Fuel trow \<mapsto> t'))
              (setitem (tech_entry td (Fuel trow)) (Param trow) (PyFloat x))"
    using store[of "PyFloat x"]
    by (simp add: read_tech_row_def Let_def py_float_of_def bind_err_def)
  have ts: "Value trow \<noteq> [] \<and> data_type trow = ''string'' \<longrightarrow>
        read_tech_row py_int py_float td trow
          = map_sum id (\<lambda>t'. td(Fuel trow \<mapsto> t'))
              (setitem (tech_entry td (Fuel trow)) (Param trow) (PyStr (Value trow)))"
    using store[of "PyStr (Value trow)"]
    by (simp add: read_tech_row_def Let_def)
  show ?thesis using s t ti tf ts by blast
qed


theorem config_rows_amended_witness:
  "read_scenario_row decimal_int decimal_float Map.empty
      \<lparr> Param = ''Urban_start'', Value = [], data_type = ''float'' \<rparr> = Inr Map.empty
   \<and> read_tech_row decimal_int decimal_float Map.empty
      \<lparr> Param = ''pm25'', Value = [], data_type = ''float'', Fuel = ''lpg'' \<rparr> = Inr Map.empty
   \<and> read_scenario_row decimal_int decimal_float Map.empty
      \<lparr> Param = ''Population_start_year'', Value = ''2020'', data_type = ''int'' \<rparr>
       = Inr [''Population_start_year'' \<mapsto> PyInt 2020]
   \<and> read_scenario_row decimal_int decimal_float Map.empty
      \<lparr> Param = ''Urban_start'', Value = ''0.5'', data_type = ''float'' \<rparr>
       = Inr [''Urban_start'' \<mapsto> PyFloat 0.5]
   \<and> read_scenario_row decimal_int decimal_float Map.empty
      \<lparr> Param = ''Country'', Value = ''Nepal'', data_type = ''string'' \<rparr>
       = Inr [''Country'' \<mapsto> PyStr ''Nepal'']
   \<and> read_scenario_row decimal_int decimal_float Map.empty
      \<lparr> Param = ''Flag'', Value = ''1'', data_type = ''bool'' \<rparr>
       = Inl (ValueError ''Config file data type not recognised.'')
   \<and> read_tech_row decimal_int decimal_float Map.empty
      \<lparr> Param = ''pm25'', Value = ''1'', data_type = ''bool'', Fuel = ''lpg'' \<rparr>
       = Inl (ValueError ''Config file data type not recognised.'')
   \<and> read_tech_row decimal_int decimal_float Map.empty
      \<lparr> Param = ''tech_life'', Value = ''2020'', data_type = ''int'', Fuel = ''lpg'' \<rparr>
       = Inr [''lpg'' \<mapsto> Technology_init\<lparr>tech_life := PyInt 2020\<rparr>]
   \<and> read_tech_row decimal_int decimal_float Map.empty
      \<lparr> Param = ''pm25'', Value = ''0.5'', data_type = ''float'', Fuel = ''lpg'' \<rparr>
       = Inr [''lpg'' \<mapsto> Technology_init\<lparr>pm25 := PyFloat 0.5\<rparr>]
   \<and> read_tech_row decimal_int decimal_float Map.empty
      \<lparr> Param = ''name'', Value = ''lpg'', data_type = ''string'', Fuel = ''lpg'' \<rparr>
       = Inr [''lpg'' \<mapsto> Technology_init\<lparr>name := PyStr ''lpg''\<rparr>]"
  using
    config_rows_amended[where row = "\<lparr> Param = ''Urban_start'', Value = [], data_type = ''float'' \<rparr>"
      and trow = "\<lparr> Param = ''pm25'', Value = [], data_type = ''float'', Fuel = ''lpg'' \<rparr>"
      and py_int = decimal_int and py_float = decimal_float and config = Map.empty
      and td = Map.empty]
    config_rows_amended[where row = "\<lparr> Param = ''Population_start_year'', Value = ''2020'', data_type = ''int'' \<rparr>"
      and trow = "\<lparr> Param = ''tech_life'', Value = ''2020'', data_type = ''int'', Fuel = ''lpg'' \<rparr>"
      and py_int = decimal_int and py_float = decimal_float and config = Map.empty
      and td = Map.empty and n = 2020]
    config_rows_amended[where row = "\<lparr> Param = ''Urban_start'', Value = ''0.5'', data_type = ''float'' \<rparr>"
      and trow = "\<lparr> Param = ''pm25'', Value = ''0.5'', data_type = ''float'', Fuel = ''lpg'' \<rparr>"
      and py_int = decimal_int and py_float = decimal_float and config = Map.empty
      and td = Map.empty and x = "0.5"]
    config_rows_amended[where row = "\<lparr> Param = ''Country'', Value = ''Nepal'', data_type = ''string'' \<rparr>"
      and trow = "\<lparr> Param = ''name'', Value = ''lpg'', data_type = ''string'', Fuel = ''lpg'' \<rparr>"
      and py_int = decimal_int and py_float = decimal_float and config = Map.empty
      and td = Map.empty]
    config_rows_amended[where row = "\<lparr> Param = ''Flag'', Value = ''1'', data_type = ''bool'' \<rparr>"
      and trow = "\<lparr> Param = ''pm25'', Value = ''1'', data_type = ''bool'', Fuel = ''lpg'' \<rparr>"
      and py_int = decimal_int and py_float = decimal_float and config = Map.empty
      and td = Map.empty]
  by (simp add: decimal_int_2020 decimal_float_half setitem_def tech_entry_def)


end
